theory Spec2Isabelle
  imports Main "HOL-Library.Word"
begin

section \<open>Notes and the input schemas (models/notes.model.go)\<close>

text \<open>
  A \<open>uuid.UUID\<close> is kept in its textual form, the form in which the path parameter
  \<open>noteId\<close> and the \<open>id = ?\<close> condition carry it. A \<open>time.Time\<close> is an instant on the
  integer line. Go's \<open>int\<close> is the 64-bit machine integer.
\<close>

type_synonym uuid = string
type_synonym time = int
type_synonym go_int = "64 word"

record Note =
  ID :: uuid
  Title :: string
  Content :: string
  Category :: string
  Published :: bool
  CreatedAt :: time
  UpdatedAt :: time

record ErrorResponse =
  eField :: string
  eTag :: string
  eValue :: string

record CreateNoteSchema =
  cTitle :: string
  cContent :: string
  cCategory :: string
  cPublished :: bool

text \<open>\<open>Published\<close> of the update schema is a \<open>*bool\<close>: \<open>None\<close> is the nil pointer.\<close>

record UpdateNoteSchema =
  uTitle :: string
  uContent :: string
  uCategory :: string
  uPublished :: "bool option"

subsection \<open>ValidateStruct\<close>

text \<open>
  \<open>ValidateStruct\<close> is generic in the payload type and reads the \<open>validate\<close> tags of
  its fields. Here the tags of a schema are a list of rules, in the order of the fields:
  the field's namespace (\<open>StructNamespace\<close>), the tag, and the field's value. The only
  tag the schemas use is \<open>required\<close>, which a string field fails when it is empty; the
  parameter of that tag (\<open>Param\<close>) is the empty string. The update schema has no
  \<open>validate\<close> tag, and the update handler does not call \<open>ValidateStruct\<close>.
\<close>

type_synonym 'a rules = "(string \<times> string \<times> ('a \<Rightarrow> string)) list"

definition CreateNoteSchema_rules :: "CreateNoteSchema rules" where
  "CreateNoteSchema_rules =
     [(''CreateNoteSchema.Title'', ''required'', cTitle),
      (''CreateNoteSchema.Content'', ''required'', cContent)]"

definition fails :: "string \<Rightarrow> string \<Rightarrow> bool" where
  "fails tag v = (tag = ''required'' \<and> v = [])"

definition ValidateStruct :: "'a rules \<Rightarrow> 'a \<Rightarrow> ErrorResponse list" where
  "ValidateStruct rules payload =
     map (\<lambda>(field, tag, get). \<lparr>eField = field, eTag = tag, eValue = ''''\<rparr>)
       (filter (\<lambda>(field, tag, get). fails tag (get payload)) rules)"

section \<open>What the handlers receive and answer\<close>

text \<open>
  An error of the store is either GORM's \<open>ErrRecordNotFound\<close>, which the handlers
  compare by identity, or an error of the driver, known by its message. The result of a
  GORM call carries \<open>Error\<close> (\<open>None\<close> is nil) and \<open>RowsAffected\<close>.
\<close>

datatype db_error = ErrRecordNotFound | DriverError string

fun Error_text :: "db_error \<Rightarrow> string" where
  "Error_text ErrRecordNotFound = ''record not found''"
| "Error_text (DriverError msg) = msg"

record db_result =
  Error :: "db_error option"
  RowsAffected :: int

text \<open>
  \<open>c.BodyParser(&payload)\<close> either fails with a message, or succeeds and leaves the
  payload pointer; the pointer is nil (\<open>None\<close>) when the body is the JSON value
  \<open>null\<close>. A handler that goes on to use a nil payload panics.
\<close>

datatype 'a parsed = ParseError string | Parsed "'a option"

datatype panic = InterfaceConversion | NilDereference

text \<open>
  A JSON body is a \<open>fiber.Map\<close> (keys with values), the slice of validation errors,
  or, for \<open>SendStatus\<close>, no JSON at all. \<open>JError\<close> is an error value put in the map as
  it is (\<open>result.Error\<close>), \<open>JString\<close> a string (\<open>err.Error()\<close>).

  \<open>c.JSON\<close> encodes the map with \<open>encoding/json\<close>. Strings, numbers and notes always
  encode. An error value encodes or not by its dynamic type: \<open>Marshal e\<close>, a parameter
  of the handlers that put an error value in the map, is \<open>None\<close> when the value \<open>e\<close>
  encodes and the message of the encoder's error when it does not. In that case
  \<open>c.JSON\<close> fails, the handler returns its error, and Fiber's error handler answers: the
  default one with status 500 and the message as plain text (\<open>Text\<close>).
\<close>

datatype jvalue =
    JString string
  | JInt int
  | JError db_error
  | JNote Note
  | JNotes "Note list"
  | JMap "(string \<times> jvalue) list"

datatype body =
    JSON "(string \<times> jvalue) list"
  | JSONErrors "ErrorResponse list"
  | StatusOnly
  | Text string

record response =
  status :: nat
  body :: body

abbreviation StatusOK :: nat where "StatusOK \<equiv> 200"
abbreviation StatusCreated :: nat where "StatusCreated \<equiv> 201"
abbreviation StatusNoContent :: nat where "StatusNoContent \<equiv> 204"
abbreviation StatusBadRequest :: nat where "StatusBadRequest \<equiv> 400"
abbreviation StatusNotFound :: nat where "StatusNotFound \<equiv> 404"
abbreviation StatusConflict :: nat where "StatusConflict \<equiv> 409"
abbreviation StatusInternalServerError :: nat where "StatusInternalServerError \<equiv> 500"
abbreviation StatusBadGateway :: nat where "StatusBadGateway \<equiv> 502"

section \<open>Library functions the handlers call\<close>

subsection \<open>strings.Contains\<close>

fun HasPrefix :: "string \<Rightarrow> string \<Rightarrow> bool" where
  "HasPrefix s [] = True"
| "HasPrefix [] (c # prefix) = False"
| "HasPrefix (a # s) (c # prefix) = (a = c \<and> HasPrefix s prefix)"

fun Contains :: "string \<Rightarrow> string \<Rightarrow> bool" where
  "Contains [] substr = (substr = [])"
| "Contains (a # s) substr = (HasPrefix (a # s) substr \<or> Contains s substr)"

subsection \<open>strconv.Atoi\<close>

text \<open>
  A decimal digit is a byte from \<open>'0'\<close> (48) to \<open>'9'\<close> (57); \<open>digit\<close> is its value.
\<close>

definition isDigit :: "char \<Rightarrow> bool" where
  "isDigit ch = (48 \<le> (of_char ch :: nat) \<and> (of_char ch :: nat) \<le> 57)"

definition digit :: "char \<Rightarrow> nat" where
  "digit ch = of_char ch - 48"

text \<open>
  The fast path of \<open>Atoi\<close>, for a string of 1 to 18 bytes. In its digit loop
  \<open>ch -= '0'\<close> on a byte wraps around, so every byte that is not a decimal digit ends
  above 9 and stops the loop with a syntax error (\<open>None\<close>). At most 18 digits are
  added up, so the \<open>int\<close> that holds them does not overflow.
\<close>

fun digits :: "string \<Rightarrow> nat \<Rightarrow> nat option" where
  "digits [] n = Some n"
| "digits (ch # s) n =
     (let d = (of_char ch :: 8 word) - 48
      in if d > 9 then None else digits s (n * 10 + unat d))"

text \<open>
  The slow path, for the empty string and for strings of 19 bytes or more, is
  \<open>ParseInt(s, 10, 0)\<close>, which takes a sign off and calls \<open>ParseUint\<close>. The loop of
  \<open>ParseUint\<close> reads the bytes from the left into a \<open>uint64\<close>, whose wrap-around is
  written out as \<open>mod 2 ^ 64\<close>: \<open>m\<close> is \<open>n\<close> after \<open>n *= 10\<close>, and \<open>n1\<close> is \<open>n + d\<close>. A byte that is not a digit ends it with a syntax error
  and the value 0; a digit that takes the number over the range ends it with a range
  error and the largest value, and the bytes after that digit are not read.
\<close>

datatype num_error = ErrSyntax | ErrRange

abbreviation maxUint64 :: nat where "maxUint64 \<equiv> 2 ^ 64 - 1"

fun ParseUint_loop :: "string \<Rightarrow> nat \<Rightarrow> nat \<times> num_error option" where
  "ParseUint_loop [] n = (n, None)"
| "ParseUint_loop (c # s) n =
     (if \<not> isDigit c then (0, Some ErrSyntax)
      else if n \<ge> maxUint64 div 10 + 1 then (maxUint64, Some ErrRange)
      else let m = (n * 10) mod 2 ^ 64;
               n1 = (m + digit c) mod 2 ^ 64
           in if n1 < m \<or> n1 > maxUint64 then (maxUint64, Some ErrRange)
              else ParseUint_loop s n1)"

definition ParseUint :: "string \<Rightarrow> nat \<times> num_error option" where
  "ParseUint s = (if s = [] then (0, Some ErrSyntax) else ParseUint_loop s 0)"

text \<open>
  \<open>ParseInt\<close> returns 0 on a syntax error of \<open>ParseUint\<close>; on a range error, and on a
  number that does not fit the signed range, it returns the bound of the sign.
\<close>

definition ParseInt :: "string \<Rightarrow> int \<times> num_error option" where
  "ParseInt s0 =
     (case s0 of
        [] \<Rightarrow> (0, Some ErrSyntax)
      | c # cs \<Rightarrow>
          let neg = (c = CHR ''-'');
              s = (if c = CHR ''+'' \<or> c = CHR ''-'' then cs else s0);
              (un, err) = ParseUint s
          in if err = Some ErrSyntax then (0, err)
             else if \<not> neg \<and> un \<ge> 2 ^ 63 then (2 ^ 63 - 1, Some ErrRange)
             else if neg \<and> un > 2 ^ 63 then (- (2 ^ 63), Some ErrRange)
             else (if neg then - int un else int un, None))"

text \<open>
  \<open>Atoi\<close> returns a value and an error. The handlers drop the error
  (\<open>intPage, _ := strconv.Atoi(page)\<close>), so \<open>Atoi\<close> here is the value alone.
\<close>

definition Atoi :: "string \<Rightarrow> go_int" where
  "Atoi s0 =
     (if 0 < length s0 \<and> length s0 < 19
      then (case s0 of
              [] \<Rightarrow> 0
            | c # cs \<Rightarrow>
                let s = (if c = CHR ''-'' \<or> c = CHR ''+'' then cs else s0)
                in if (c = CHR ''-'' \<or> c = CHR ''+'') \<and> length s < 1 then 0
                   else (case digits s 0 of
                           None \<Rightarrow> 0
                         | Some n \<Rightarrow>
                             if c = CHR ''-'' then word_of_int (- int n)
                             else word_of_int (int n)))
      else word_of_int (fst (ParseInt s0)))"

text \<open>
  What "numeric" means for a query value: an optional sign followed by one or more
  decimal digits. For a value that is not numeric, \<open>digit_run\<close> is the run of digits it
  starts with after the sign, \<open>decimal\<close> the number a run of digits denotes, and
  \<open>negative\<close> says that the sign is a minus.
\<close>

definition unsigned :: "string \<Rightarrow> string" where
  "unsigned s =
     (case s of
        [] \<Rightarrow> []
      | c # cs \<Rightarrow> if c = CHR ''-'' \<or> c = CHR ''+'' then cs else s)"

definition numeric :: "string \<Rightarrow> bool" where
  "numeric s = (unsigned s \<noteq> [] \<and> list_all isDigit (unsigned s))"

definition negative :: "string \<Rightarrow> bool" where
  "negative s = (case s of [] \<Rightarrow> False | c # cs \<Rightarrow> c = CHR ''-'')"

definition digit_run :: "string \<Rightarrow> string" where
  "digit_run s = takeWhile isDigit s"

definition decimal :: "string \<Rightarrow> nat" where
  "decimal ds = foldl (\<lambda>n ch. n * 10 + digit ch) 0 ds"

subsection \<open>c.Query\<close>

text \<open>
  The query string is a map from keys to values. \<open>c.Query(key, default)\<close> gives the
  default when the key is absent or its value is empty.
\<close>

definition Query :: "(string \<rightharpoonup> string) \<Rightarrow> string \<Rightarrow> string \<Rightarrow> string" where
  "Query c key defaultValue =
     (case c key of
        None \<Rightarrow> defaultValue
      | Some v \<Rightarrow> if v = [] then defaultValue else v)"

section \<open>The store behind \<open>initializers.DB\<close>\<close>

text \<open>
  The handlers reach the store through five GORM calls. \<open>Create\<close>, \<open>Find\<close> and
  \<open>Delete\<close> enter a handler as the answer the store gives to the call, so a handler is
  checked against every answer. \<open>First\<close> and \<open>Updates\<close> act on the table of notes, a
  list of rows: the update handler reads a row and writes it back, and what is stored
  afterwards is part of its behaviour. A failure of the backend (no connection, a
  violated constraint, a malformed id) is the parameter \<open>fault\<close> of a call: the statement
  then reports that error and changes nothing.
\<close>

definition DB_First :: "db_error option \<Rightarrow> uuid \<Rightarrow> Note list \<Rightarrow> db_error + Note" where
  "DB_First fault noteId rows =
     (case fault of
        Some e \<Rightarrow> Inl e
      | None \<Rightarrow>
          (case find (\<lambda>r. ID r = noteId) rows of
             None \<Rightarrow> Inl ErrRecordNotFound
           | Some note \<Rightarrow> Inr note))"

text \<open>
  The \<open>map[string]interface{}\<close> given to \<open>Updates\<close>: column names with the values to
  set. \<open>assign\<close> sets the named columns of one note and leaves the others; a value of
  the wrong kind for its column, which the handler never builds, sets nothing.
\<close>

datatype uvalue = VString string | VBool bool | VTime time

definition assign :: "(string \<rightharpoonup> uvalue) \<Rightarrow> Note \<Rightarrow> Note" where
  "assign updates note =
     note\<lparr>Title := (case updates ''title'' of Some (VString s) \<Rightarrow> s | _ \<Rightarrow> Title note),
          Content := (case updates ''content'' of Some (VString s) \<Rightarrow> s | _ \<Rightarrow> Content note),
          Category := (case updates ''category'' of Some (VString s) \<Rightarrow> s | _ \<Rightarrow> Category note),
          Published := (case updates ''published'' of Some (VBool b) \<Rightarrow> b | _ \<Rightarrow> Published note),
          UpdatedAt := (case updates ''updated_at'' of Some (VTime t) \<Rightarrow> t | _ \<Rightarrow> UpdatedAt note)\<rparr>"

text \<open>
  \<open>DB.Model(&note).Updates(updates)\<close>: GORM assigns the values to the struct it was
  given, and the statement sets the columns of the rows whose id is the struct's. The
  answer is the result, the struct after the assignment, and the table.
\<close>

definition DB_Updates ::
  "db_error option \<Rightarrow> Note \<Rightarrow> (string \<rightharpoonup> uvalue) \<Rightarrow> Note list \<Rightarrow> db_result \<times> Note \<times> Note list" where
  "DB_Updates fault note updates rows =
     (case fault of
        Some e \<Rightarrow> (\<lparr>Error = Some e, RowsAffected = 0\<rparr>, assign updates note, rows)
      | None \<Rightarrow>
          (\<lparr>Error = None, RowsAffected = int (length (filter (\<lambda>r. ID r = ID note) rows))\<rparr>,
           assign updates note,
           map (\<lambda>r. if ID r = ID note then assign updates r else r) rows))"

section \<open>The handlers (controllers)\<close>

subsection \<open>CreateNoteHandler\<close>

text \<open>
  \<open>now\<close> is \<open>time.Now()\<close>. \<open>DB_Create\<close> is the store's answer to the insert of a note:
  the result and the generated id, which GORM writes back into \<open>newNote\<close>.
  \<open>CreateNoteHandler_newNote\<close> is the note the handler builds from the payload (lines 81
  to 89); its \<open>ID\<close> is left at the zero value.
\<close>

definition CreateNoteHandler_newNote :: "time \<Rightarrow> CreateNoteSchema \<Rightarrow> Note" where
  "CreateNoteHandler_newNote now payload =
     \<lparr>ID = ''00000000-0000-0000-0000-000000000000'',
      Title = cTitle payload,
      Content = cContent payload,
      Category = cCategory payload,
      Published = cPublished payload,
      CreatedAt = now,
      UpdatedAt = now\<rparr>"

definition CreateNoteHandler ::
  "time \<Rightarrow> (Note \<Rightarrow> db_result \<times> uuid) \<Rightarrow> CreateNoteSchema parsed \<Rightarrow> panic + response" where
  "CreateNoteHandler now DB_Create parsed =
     (case parsed of
        ParseError err \<Rightarrow>
          Inr \<lparr>status = StatusBadRequest,
               body = JSON [(''status'', JString ''fail''), (''message'', JString err)]\<rparr>
      | Parsed None \<Rightarrow> Inl InterfaceConversion
      | Parsed (Some payload) \<Rightarrow>
          let errors = ValidateStruct CreateNoteSchema_rules payload
          in if errors \<noteq> [] then Inr \<lparr>status = StatusBadRequest, body = JSONErrors errors\<rparr>
             else
               let newNote = CreateNoteHandler_newNote now payload;
                   (result, id) = DB_Create newNote;
                   newNote = newNote\<lparr>ID := id\<rparr>
               in (case Error result of
                     Some err \<Rightarrow>
                       if Contains (Error_text err) ''duplicate key value violates unique''
                       then Inr \<lparr>status = StatusConflict,
                                 body = JSON [(''status'', JString ''fail''),
                                              (''message'', JString ''Title already exists, please use another title'')]\<rparr>
                       else Inr \<lparr>status = StatusBadGateway,
                                 body = JSON [(''status'', JString ''error''),
                                              (''message'', JString (Error_text err))]\<rparr>
                   | None \<Rightarrow>
                       Inr \<lparr>status = StatusCreated,
                            body = JSON [(''status'', JString ''success''),
                                         (''data'', JMap [(''note'', JNote newNote)])]\<rparr>))"

subsection \<open>FindNotes\<close>

text \<open>
  \<open>DB_Find\<close> is the store's answer to \<open>DB.Limit(intLimit).Offset(offset).Find(&notes)\<close>:
  the error of the result and the notes read. The error branch puts the error value
  itself under \<open>message\<close> (\<open>results.Error\<close>, line 123).
\<close>

text \<open>The response made from the store's answer (lines 121 to 127).\<close>

definition FindNotes_respond ::
  "(db_error \<Rightarrow> string option) \<Rightarrow> db_error option \<times> Note list \<Rightarrow> response" where
  "FindNotes_respond Marshal results =
     (case results of
        (Some e, notes) \<Rightarrow>
          (case Marshal e of
             None \<Rightarrow>
               \<lparr>status = StatusBadGateway,
                body = JSON [(''status'', JString ''error''), (''message'', JError e)]\<rparr>
           | Some json_error \<Rightarrow>
               \<lparr>status = StatusInternalServerError, body = Text json_error\<rparr>)
      | (None, notes) \<Rightarrow>
          \<lparr>status = StatusOK,
           body = JSON [(''status'', JString ''success''),
                        (''results'', JInt (int (length notes))),
                        (''notes'', JNotes notes)]\<rparr>)"

definition FindNotes ::
  "(db_error \<Rightarrow> string option) \<Rightarrow> (go_int \<Rightarrow> go_int \<Rightarrow> db_error option \<times> Note list)
     \<Rightarrow> (string \<rightharpoonup> string) \<Rightarrow> response" where
  "FindNotes Marshal DB_Find c =
     (let page = Query c ''page'' ''1'';
          limit = Query c ''limit'' ''10'';
          intPage = Atoi page;
          intLimit = Atoi limit;
          offset = (intPage - 1) * intLimit
      in FindNotes_respond Marshal (DB_Find intLimit offset))"

subsection \<open>UpdateNote\<close>

text \<open>The map of updates the handler builds from the payload (lines 157 to 172).\<close>

definition UpdateNote_updates :: "time \<Rightarrow> UpdateNoteSchema \<Rightarrow> (string \<rightharpoonup> uvalue)" where
  "UpdateNote_updates now payload =
     (let updates = Map.empty;
          updates = (if uTitle payload \<noteq> ''''
                     then updates(''title'' \<mapsto> VString (uTitle payload)) else updates);
          updates = (if uCategory payload \<noteq> ''''
                     then updates(''category'' \<mapsto> VString (uCategory payload)) else updates);
          updates = (if uContent payload \<noteq> ''''
                     then updates(''content'' \<mapsto> VString (uContent payload)) else updates);
          updates = (case uPublished payload of
                       Some b \<Rightarrow> updates(''published'' \<mapsto> VBool b)
                     | None \<Rightarrow> updates)
      in updates(''updated_at'' \<mapsto> VTime now))"

text \<open>
  \<open>first_fault\<close> and \<open>updates_fault\<close> are the failures the backend meets at the two
  statements. The handler returns the response and leaves the table as the statements
  left it. The result of \<open>Updates\<close> is not looked at.
\<close>

definition UpdateNote ::
  "time \<Rightarrow> db_error option \<Rightarrow> db_error option \<Rightarrow> uuid \<Rightarrow> UpdateNoteSchema parsed \<Rightarrow> Note list
     \<Rightarrow> (panic + response) \<times> Note list" where
  "UpdateNote now first_fault updates_fault noteId parsed rows =
     (case parsed of
        ParseError err \<Rightarrow>
          (Inr \<lparr>status = StatusBadRequest,
                body = JSON [(''status'', JString ''fail''), (''message'', JString err)]\<rparr>,
           rows)
      | Parsed payload \<Rightarrow>
          (case DB_First first_fault noteId rows of
             Inl err \<Rightarrow>
               if err = ErrRecordNotFound
               then (Inr \<lparr>status = StatusNotFound,
                          body = JSON [(''status'', JString ''fail''),
                                       (''message'', JString ''No note with that ID exists'')]\<rparr>,
                     rows)
               else (Inr \<lparr>status = StatusBadGateway,
                          body = JSON [(''status'', JString ''fail''),
                                       (''message'', JString (Error_text err))]\<rparr>,
                     rows)
           | Inr note \<Rightarrow>
               (case payload of
                  None \<Rightarrow> (Inl NilDereference, rows)
                | Some p \<Rightarrow>
                    let updates = UpdateNote_updates now p;
                        (result, note, rows) = DB_Updates updates_fault note updates rows
                    in (Inr \<lparr>status = StatusOK,
                             body = JSON [(''status'', JString ''success''),
                                          (''data'', JMap [(''note'', JNote note)])]\<rparr>,
                        rows))))"

subsection \<open>FindNoteById\<close>

definition FindNoteById :: "db_error option \<Rightarrow> uuid \<Rightarrow> Note list \<Rightarrow> response" where
  "FindNoteById fault noteId rows =
     (case DB_First fault noteId rows of
        Inl err \<Rightarrow>
          if err = ErrRecordNotFound
          then \<lparr>status = StatusNotFound,
                body = JSON [(''status'', JString ''fail''),
                             (''message'', JString ''No note with that ID exists'')]\<rparr>
          else \<lparr>status = StatusBadGateway,
                body = JSON [(''status'', JString ''fail''),
                             (''message'', JString (Error_text err))]\<rparr>
      | Inr note \<Rightarrow>
          \<lparr>status = StatusOK,
           body = JSON [(''status'', JString ''success''),
                        (''data'', JMap [(''note'', JNote note)])]\<rparr>)"

subsection \<open>DeleteNote\<close>

text \<open>
  \<open>DB_Delete\<close> is the store's answer to \<open>DB.Delete(&models.Note{}, "id = ?", noteId)\<close>.
  The handler looks at \<open>RowsAffected\<close> first and at \<open>Error\<close> only when a row was
  affected. The error branch puts the error value itself under \<open>message\<close>
  (\<open>result.Error\<close>, line 215).
\<close>

definition DeleteNote ::
  "(db_error \<Rightarrow> string option) \<Rightarrow> (uuid \<Rightarrow> db_result) \<Rightarrow> uuid \<Rightarrow> response" where
  "DeleteNote Marshal DB_Delete noteId =
     (let result = DB_Delete noteId
      in if RowsAffected result = 0
         then \<lparr>status = StatusNotFound,
               body = JSON [(''status'', JString ''fail''),
                            (''message'', JString ''No note with that ID exists'')]\<rparr>
         else (case Error result of
                 Some e \<Rightarrow>
                   (case Marshal e of
                      None \<Rightarrow>
                        \<lparr>status = StatusBadGateway,
                         body = JSON [(''status'', JString ''error''), (''message'', JError e)]\<rparr>
                    | Some json_error \<Rightarrow>
                        \<lparr>status = StatusInternalServerError, body = Text json_error\<rparr>)
               | None \<Rightarrow> \<lparr>status = StatusNoContent, body = StatusOnly\<rparr>))"


section \<open>The error envelope of the specification\<close>

text \<open>
  The envelope of an error response, in the words of the specification: a map with a
  \<open>status\<close> field that is \<open>"fail"\<close> or \<open>"error"\<close>, and a \<open>message\<close> field.
\<close>

definition error_envelope :: "body \<Rightarrow> bool" where
  "error_envelope b =
     (case b of
        JSON m \<Rightarrow>
          (map_of m ''status'' = Some (JString ''fail'') \<or>
           map_of m ''status'' = Some (JString ''error'')) \<and>
          map_of m ''message'' \<noteq> None
      | JSONErrors errors \<Rightarrow> False
      | StatusOnly \<Rightarrow> False
      | Text msg \<Rightarrow> False)"

section \<open>Stores and requests used as examples\<close>

text \<open>A store that answers every insert with the same result and generated id.\<close>

definition Create_answers :: "db_result \<Rightarrow> uuid \<Rightarrow> Note \<Rightarrow> db_result \<times> uuid" where
  "Create_answers result new_id note = (result, new_id)"

text \<open>A store that answers every delete with the same result.\<close>

definition Delete_answers :: "db_result \<Rightarrow> uuid \<Rightarrow> db_result" where
  "Delete_answers result noteId = result"

text \<open>A store that answers every page query with the same error and notes.\<close>

definition Find_answers ::
  "db_error option \<Rightarrow> Note list \<Rightarrow> go_int \<Rightarrow> go_int \<Rightarrow> db_error option \<times> Note list" where
  "Find_answers err notes limit offset = (err, notes)"

text \<open>An encoder for which every error value encodes.\<close>

definition encodes_all :: "db_error \<Rightarrow> string option" where
  "encodes_all e = None"

text \<open>The query strings without parameters, and with a page that is not a number.\<close>

definition no_query :: "string \<rightharpoonup> string" where
  "no_query = Map.empty"

definition bad_page_query :: "string \<rightharpoonup> string" where
  "bad_page_query = [''page'' \<mapsto> ''abc'', ''limit'' \<mapsto> ''5'']"

text \<open>A page that is twenty digits, more than 64 bits hold, followed by a letter.\<close>

definition long_page_query :: "string \<rightharpoonup> string" where
  "long_page_query = [''page'' \<mapsto> ''99999999999999999999x'']"

text \<open>Two stored notes, and the errors a backend reports.\<close>

definition note_A :: Note where
  "note_A = \<lparr>ID = ''a1'', Title = ''A'', Content = ''x'', Category = ''home'',
             Published = True, CreatedAt = 100, UpdatedAt = 100\<rparr>"

definition note_B :: Note where
  "note_B = \<lparr>ID = ''b2'', Title = ''B'', Content = ''y'', Category = ''work'',
             Published = False, CreatedAt = 200, UpdatedAt = 250\<rparr>"

definition duplicate_key :: db_error where
  "duplicate_key =
     DriverError ''ERROR: duplicate key value violates unique constraint (SQLSTATE 23505)''"

definition connection_refused :: db_error where
  "connection_refused = DriverError ''dial tcp 127.0.0.1:5432: connect: connection refused''"


section \<open>Facts about the library functions\<close>

subsection \<open>Contains is the substring test\<close>

lemma HasPrefix_iff: "HasPrefix s p = (\<exists>t. s = p @ t)"
  by (induction s p rule: HasPrefix.induct) auto

lemma Contains_iff: "Contains s sub = (\<exists>ps ss. s = ps @ sub @ ss)"
proof (induction s)
  case Nil
  then show ?case by auto
next
  case (Cons a s)
  show ?case
  proof
    assume "Contains (a # s) sub"
    then consider "HasPrefix (a # s) sub" | "Contains s sub" by auto
    then show "\<exists>ps ss. a # s = ps @ sub @ ss"
    proof cases
      case 1
      then obtain t where "a # s = sub @ t" by (auto simp: HasPrefix_iff)
      then have "a # s = [] @ sub @ t" by simp
      then show ?thesis by blast
    next
      case 2
      then obtain ps ss where "s = ps @ sub @ ss" using Cons.IH by auto
      then have "a # s = (a # ps) @ sub @ ss" by simp
      then show ?thesis by blast
    qed
  next
    assume "\<exists>ps ss. a # s = ps @ sub @ ss"
    then obtain ps ss where e: "a # s = ps @ sub @ ss" by auto
    show "Contains (a # s) sub"
    proof (cases ps)
      case Nil
      then have "HasPrefix (a # s) sub" using e by (auto simp: HasPrefix_iff)
      then show ?thesis by simp
    next
      case (Cons b ps')
      then have "s = ps' @ sub @ ss" using e by simp
      then have "Contains s sub" using Cons.IH by blast
      then show ?thesis by simp
    qed
  qed
qed

subsection \<open>The digit test of the fast path\<close>

lemma of_char_word8: "(of_char ch :: 8 word) = of_nat (of_char ch)"
  by (simp add: of_nat_of_char)

lemma of_char_lt: "(of_char ch :: nat) < 256"
  by simp

lemma byte_digit_nat:
  assumes "n < 256"
  shows "((of_nat n :: 8 word) - 48 > 9) = (\<not> (48 \<le> n \<and> n \<le> 57))"
proof -
  have u: "unat (of_nat n :: 8 word) = n"
    using assms by (simp add: unat_of_nat)
  show ?thesis
    using assms by (simp add: word_less_nat_alt unat_sub_if' u) arith
qed

lemma digit_byte: "((of_char ch :: 8 word) - 48 > 9) = (\<not> isDigit ch)"
  unfolding of_char_word8 isDigit_def by (rule byte_digit_nat) (rule of_char_lt)

lemma digits_None_iff: "(digits s n = None) = (\<not> list_all isDigit s)"
  by (induction s arbitrary: n) (simp_all add: Let_def digit_byte)

lemma digit_le_9: "isDigit ch \<Longrightarrow> digit ch \<le> 9"
  unfolding isDigit_def digit_def by arith

subsection \<open>The number a run of digits denotes\<close>

lemma foldl_decimal_ge: "n \<le> foldl (\<lambda>n ch. n * 10 + digit ch) n ds"
proof (induction ds arbitrary: n)
  case Nil
  show ?case by simp
next
  case (Cons c ds)
  have "n \<le> n * 10 + digit c" by simp
  also have "\<dots> \<le> foldl (\<lambda>n ch. n * 10 + digit ch) (n * 10 + digit c) ds"
    by (rule Cons.IH)
  finally show ?case by simp
qed

lemma foldl_decimal_bound:
  "list_all isDigit ds \<Longrightarrow>
   foldl (\<lambda>n ch. n * 10 + digit ch) n ds + 1 \<le> (n + 1) * 10 ^ length ds"
proof (induction ds arbitrary: n)
  case Nil
  show ?case by simp
next
  case (Cons c ds)
  then have d: "digit c \<le> 9" and r: "list_all isDigit ds"
    by (simp_all add: digit_le_9)
  have "foldl (\<lambda>n ch. n * 10 + digit ch) (n * 10 + digit c) ds + 1
          \<le> (n * 10 + digit c + 1) * 10 ^ length ds"
    by (rule Cons.IH [OF r])
  also have "\<dots> \<le> ((n + 1) * 10) * 10 ^ length ds"
    using d by (intro mult_right_mono) simp_all
  finally show ?case by (simp add: algebra_simps)
qed

lemma decimal_short:
  assumes "list_all isDigit ds" and "length ds \<le> 18"
  shows "decimal ds < 2 ^ 64"
proof -
  have "decimal ds + 1 \<le> 10 ^ length ds"
    using foldl_decimal_bound [OF assms(1), of 0] by (simp add: decimal_def)
  also have "(10::nat) ^ length ds \<le> 10 ^ 18"
    using assms(2) by (intro power_increasing) simp_all
  finally show ?thesis by simp
qed

subsection \<open>The loop of ParseUint\<close>

text \<open>
  The loop ends with a range error exactly when the run of digits it starts with denotes
  more than 64 bits hold; otherwise with a syntax error when some byte is not a digit.
\<close>

lemma ParseUint_loop_eq:
  assumes "n \<le> maxUint64"
  shows "ParseUint_loop s n =
           (if maxUint64 < foldl (\<lambda>n ch. n * 10 + digit ch) n (takeWhile isDigit s)
            then (maxUint64, Some ErrRange)
            else if list_all isDigit s
                 then (foldl (\<lambda>n ch. n * 10 + digit ch) n s, None)
                 else (0, Some ErrSyntax))"
  using assms
proof (induction s arbitrary: n)
  case Nil
  then show ?case by simp
next
  case (Cons c s)
  show ?case
  proof (cases "isDigit c")
    case False
    with Cons.prems show ?thesis by simp
  next
    case True
    let ?m = "n * 10 + digit c"
    let ?v = "foldl (\<lambda>n ch. n * 10 + digit ch) ?m (takeWhile isDigit s)"
    have d: "digit c \<le> 9" using True by (rule digit_le_9)
    have ge: "?m \<le> ?v" by (rule foldl_decimal_ge)
    show ?thesis
    proof (cases "n \<ge> maxUint64 div 10 + 1")
      case big: True
      then have "maxUint64 < ?m" by simp
      with ge have "maxUint64 < ?v" by linarith
      with True big show ?thesis by simp
    next
      case small: False
      then have "n * 10 < 2 ^ 64" by simp
      then have m: "n * 10 mod 2 ^ 64 = n * 10" by simp
      show ?thesis
      proof (cases "?m < 2 ^ 64")
        case fits: True
        then have n1: "?m mod 2 ^ 64 = ?m" by simp
        have le: "?m \<le> maxUint64" using fits by simp
        have "ParseUint_loop (c # s) n = ParseUint_loop s ?m"
          using True small fits m n1 by (simp add: Let_def del: ParseUint_loop.simps(1))
        also note Cons.IH [OF le]
        finally show ?thesis using True by simp
      next
        case wraps: False
        then have over: "maxUint64 < ?m" by simp
        with ge have v: "maxUint64 < ?v" by linarith
        have "?m < 2 ^ 64 + 2 ^ 64" using small d by simp
        then have n1: "?m mod 2 ^ 64 = ?m - 2 ^ 64"
          using wraps by (simp add: mod_if)
        have "?m - 2 ^ 64 < n * 10" using d wraps by simp
        then have "ParseUint_loop (c # s) n = (maxUint64, Some ErrRange)"
          using True small m n1 by (simp add: Let_def)
        with v True show ?thesis by simp
      qed
    qed
  qed
qed

subsection \<open>Atoi on values that are not numeric\<close>

lemma list_all_digit_run: "list_all isDigit (digit_run s)"
  by (simp add: digit_run_def list_all_iff) (meson set_takeWhileD)

lemma length_digit_run: "length (digit_run s) \<le> length s"
  by (simp add: digit_run_def length_takeWhile_le)

lemma ParseUint_not_numeric:
  assumes "t = [] \<or> \<not> list_all isDigit t"
  shows "ParseUint t =
           (if 2 ^ 64 \<le> decimal (digit_run t) then (maxUint64, Some ErrRange)
            else (0, Some ErrSyntax))"
proof (cases "t = []")
  case True
  then show ?thesis by (simp add: ParseUint_def digit_run_def decimal_def)
next
  case False
  with assms have n: "\<not> list_all isDigit t" by simp
  have "ParseUint t = ParseUint_loop t 0"
    using False by (simp add: ParseUint_def)
  also have "\<dots> = (if maxUint64 < decimal (digit_run t) then (maxUint64, Some ErrRange)
                     else (0, Some ErrSyntax))"
    using n by (simp add: ParseUint_loop_eq decimal_def digit_run_def)
  also have "(maxUint64 < decimal (digit_run t)) = (2 ^ 64 \<le> decimal (digit_run t))"
    by auto
  finally show ?thesis .
qed

lemma Atoi_not_numeric:
  assumes "\<not> numeric s"
  shows "Atoi s =
           (if 2 ^ 64 \<le> decimal (digit_run (unsigned s))
            then (if negative s then word_of_int (- (2 ^ 63)) else word_of_int (2 ^ 63 - 1))
            else 0)"
proof (cases s)
  case Nil
  then show ?thesis
    by (simp add: Atoi_def ParseInt_def unsigned_def digit_run_def decimal_def)
next
  case (Cons c cs)
  define t where "t = unsigned s"
  have t: "t = (if c = CHR ''-'' \<or> c = CHR ''+'' then cs else s)"
    by (simp add: t_def unsigned_def Cons)
  have nn: "t = [] \<or> \<not> list_all isDigit t"
    using assms by (auto simp: numeric_def t_def)
  have neg: "negative s = (c = CHR ''-'')"
    by (simp add: negative_def Cons)
  show ?thesis
  proof (cases "length s < 19")
    case True
    have "length t \<le> 18"
      using True t Cons by (auto split: if_splits)
    then have "length (digit_run t) \<le> 18"
      using length_digit_run [of t] by linarith
    then have small: "\<not> 2 ^ 64 \<le> decimal (digit_run t)"
      using decimal_short [OF list_all_digit_run, of t] by simp
    have "Atoi s = 0"
    proof (cases "t = []")
      case True
      with t Cons have "c = CHR ''-'' \<or> c = CHR ''+''" and "cs = []"
        by (auto split: if_splits)
      then show ?thesis
        using \<open>length s < 19\<close> by (auto simp: Atoi_def Cons)
    next
      case False
      with nn have "digits t 0 = None" by (simp add: digits_None_iff)
      then show ?thesis
        using \<open>length s < 19\<close> t by (auto simp: Atoi_def Cons Let_def)
    qed
    with small show ?thesis unfolding t_def by simp
  next
    case False
    have pu: "ParseUint t =
           (if 2 ^ 64 \<le> decimal (digit_run t) then (maxUint64, Some ErrRange)
            else (0, Some ErrSyntax))"
      by (rule ParseUint_not_numeric [OF nn])
    have t': "(if c = CHR ''+'' \<or> c = CHR ''-'' then cs else c # cs) = t"
      using t Cons by auto
    have "Atoi s = word_of_int (fst (ParseInt s))"
      using False by (simp add: Atoi_def)
    also have "fst (ParseInt s) =
        (if 2 ^ 64 \<le> decimal (digit_run t)
         then (if c = CHR ''-'' then - (2 ^ 63) else 2 ^ 63 - 1) else 0)"
      by (simp add: ParseInt_def Cons t' pu Let_def)
    finally show ?thesis
      unfolding t_def [symmetric] neg by simp
  qed
qed

lemma Atoi_1: "Atoi ''1'' = 1"
  by (simp add: Atoi_def Let_def)

lemma Atoi_10: "Atoi ''10'' = 10"
  by (simp add: Atoi_def Let_def)

subsection \<open>Validation of a create payload\<close>

lemma ValidateStruct_Create_Nil:
  "(ValidateStruct CreateNoteSchema_rules payload = []) =
     (cTitle payload \<noteq> '''' \<and> cContent payload \<noteq> '''')"
  by (simp add: ValidateStruct_def CreateNoteSchema_rules_def fails_def)


section \<open>Delete: what happens to an error of the store\<close>

text \<open>
  Claim C1. For every delete request the handler answers 404 exactly when no row was
  affected, and 502 whenever the store reports an error; an error of the store is never
  answered as 404.

  The handler tests \<open>RowsAffected\<close> before \<open>Error\<close>. A delete that fails in the store
  affects no row, so its result has an error and \<open>RowsAffected = 0\<close>, and the handler
  answers 404 with "No note with that ID exists". The theorem evaluates the handler on
  that result; the branch taken does not put the error in the response, so it holds for
  every \<open>Marshal\<close>.
\<close>

theorem DeleteNote_store_error_answers_404:
  "DeleteNote Marshal (Delete_answers \<lparr>Error = Some connection_refused, RowsAffected = 0\<rparr>) ''a1'' =
     \<lparr>status = StatusNotFound,
      body = JSON [(''status'', JString ''fail''),
                   (''message'', JString ''No note with that ID exists'')]\<rparr>"
  by (simp add: DeleteNote_def Delete_answers_def)

text \<open>
  The status of the handler for every answer of the store: 404 exactly when no row was
  affected, error or not; the error branch only for an error that comes with a row count
  other than 0, where it answers 502 when the error value encodes.
\<close>

lemma DeleteNote_status:
  "status (DeleteNote Marshal DB_Delete noteId) =
     (if RowsAffected (DB_Delete noteId) = 0 then StatusNotFound
      else (case Error (DB_Delete noteId) of
              None \<Rightarrow> StatusNoContent
            | Some e \<Rightarrow>
                (case Marshal e of
                   None \<Rightarrow> StatusBadGateway
                 | Some json_error \<Rightarrow> StatusInternalServerError)))"
  by (simp add: DeleteNote_def Let_def split: option.splits)

section \<open>Update: what happens to an error of the write\<close>

text \<open>
  Claim C2. For every update request that passes decoding and the existence check, a
  failure of the write is answered with 502, never with 200.

  The handler does not look at the result of \<open>Updates\<close>. The theorem evaluates it on a
  table of two notes and a request that renames note A to the title of note B, a write
  the store refuses with a duplicate key error: the answer is 200 with the note as it
  would have been, and the table is unchanged.
\<close>

theorem UpdateNote_failed_write_answers_200:
  "UpdateNote 300 None (Some duplicate_key) ''a1''
      (Parsed (Some \<lparr>uTitle = ''B'', uContent = '''', uCategory = '''', uPublished = None\<rparr>))
      [note_A, note_B] =
     (Inr \<lparr>status = StatusOK,
           body = JSON [(''status'', JString ''success''),
                        (''data'', JMap [(''note'', JNote (note_A\<lparr>Title := ''B'', UpdatedAt := 300\<rparr>))])]\<rparr>,
      [note_A, note_B])"
  by (simp add: UpdateNote_def DB_First_def DB_Updates_def UpdateNote_updates_def assign_def
      note_A_def note_B_def Let_def)

section \<open>Create: conflict or other error of the insert\<close>

text \<open>
  Claim C8. When the insert of a valid payload fails, the handler answers 409 if the
  message of the error contains "duplicate key value violates unique" as a substring,
  and 502 for every other error; nothing else of the error is looked at.
\<close>

theorem CreateNoteHandler_insert_error:
  assumes "cTitle payload \<noteq> ''''" and "cContent payload \<noteq> ''''"
    and "Error (fst (DB_Create (CreateNoteHandler_newNote now payload))) = Some err"
  shows "\<exists>r. CreateNoteHandler now DB_Create (Parsed (Some payload)) = Inr r \<and>
             status r =
               (if (\<exists>ps ss. Error_text err = ps @ ''duplicate key value violates unique'' @ ss)
                then StatusConflict else StatusBadGateway)"
proof -
  have v: "ValidateStruct CreateNoteSchema_rules payload = []"
    using assms(1,2) by (simp add: ValidateStruct_Create_Nil)
  obtain result new_id where c: "DB_Create (CreateNoteHandler_newNote now payload) = (result, new_id)"
    by (cases "DB_Create (CreateNoteHandler_newNote now payload)")
  with assms(3) have e: "Error result = Some err" by simp
  show ?thesis
    unfolding Contains_iff [symmetric]
    by (simp add: CreateNoteHandler_def v c e Let_def)
qed

text \<open>
  The theorem at a valid payload, once with a duplicate key error (409) and once with a
  refused connection (502).
\<close>

theorem CreateNoteHandler_insert_error_witness:
  "cTitle \<lparr>cTitle = ''A'', cContent = ''y'', cCategory = '''', cPublished = False\<rparr> \<noteq> '''' \<and>
   (\<exists>r. CreateNoteHandler 7 (Create_answers \<lparr>Error = Some duplicate_key, RowsAffected = 0\<rparr> '''')
          (Parsed (Some \<lparr>cTitle = ''A'', cContent = ''y'', cCategory = '''', cPublished = False\<rparr>)) = Inr r \<and>
        status r = StatusConflict) \<and>
   (\<exists>r. CreateNoteHandler 7 (Create_answers \<lparr>Error = Some connection_refused, RowsAffected = 0\<rparr> '''')
          (Parsed (Some \<lparr>cTitle = ''A'', cContent = ''y'', cCategory = '''', cPublished = False\<rparr>)) = Inr r \<and>
        status r = StatusBadGateway)"
proof -
  let ?p = "\<lparr>cTitle = ''A'', cContent = ''y'', cCategory = '''', cPublished = False\<rparr>"
  have d: "Contains (Error_text duplicate_key) ''duplicate key value violates unique''"
    by (simp add: duplicate_key_def)
  have n: "\<not> Contains (Error_text connection_refused) ''duplicate key value violates unique''"
    by (simp add: connection_refused_def)
  have 1: "\<exists>r. CreateNoteHandler 7 (Create_answers \<lparr>Error = Some duplicate_key, RowsAffected = 0\<rparr> '''')
          (Parsed (Some ?p)) = Inr r \<and> status r = StatusConflict"
    using CreateNoteHandler_insert_error [of ?p "Create_answers \<lparr>Error = Some duplicate_key, RowsAffected = 0\<rparr> ''''" 7 duplicate_key,
        unfolded Contains_iff [symmetric]]
      d by (simp add: Create_answers_def)
  have 2: "\<exists>r. CreateNoteHandler 7 (Create_answers \<lparr>Error = Some connection_refused, RowsAffected = 0\<rparr> '''')
          (Parsed (Some ?p)) = Inr r \<and> status r = StatusBadGateway"
    using CreateNoteHandler_insert_error [of ?p "Create_answers \<lparr>Error = Some connection_refused, RowsAffected = 0\<rparr> ''''" 7 connection_refused,
        unfolded Contains_iff [symmetric]]
      n by (simp add: Create_answers_def)
  show ?thesis using 1 2 by simp
qed


section \<open>Create: the note that is answered\<close>

text \<open>
  Claim C5, as stated: every valid payload (title and content not empty) is answered 201
  with the note built from it. It fails where the store refuses the insert: the handler
  has a branch for that (409 for a duplicate key, 502 otherwise). Here a valid payload
  whose title is already stored is answered 409.
\<close>

theorem CreateNoteHandler_valid_input_conflict:
  "cTitle \<lparr>cTitle = ''A'', cContent = ''y'', cCategory = '''', cPublished = False\<rparr> \<noteq> '''' \<and>
   cContent \<lparr>cTitle = ''A'', cContent = ''y'', cCategory = '''', cPublished = False\<rparr> \<noteq> '''' \<and>
   CreateNoteHandler 7 (Create_answers \<lparr>Error = Some duplicate_key, RowsAffected = 0\<rparr> '''')
      (Parsed (Some \<lparr>cTitle = ''A'', cContent = ''y'', cCategory = '''', cPublished = False\<rparr>)) =
     Inr \<lparr>status = StatusConflict,
          body = JSON [(''status'', JString ''fail''),
                       (''message'', JString ''Title already exists, please use another title'')]\<rparr>"
  by (simp add: CreateNoteHandler_def Create_answers_def ValidateStruct_Create_Nil
      duplicate_key_def Let_def)

text \<open>
  Claim C5, amended: for every valid payload whose insert the store accepts, the
  handler answers 201 with a note that has the payload's title, content, category and
  published flag, the id the store generated, and equal \<open>createdAt\<close> and \<open>updatedAt\<close>
  (both are \<open>now\<close>).
\<close>

theorem CreateNoteHandler_created:
  assumes "cTitle payload \<noteq> ''''" and "cContent payload \<noteq> ''''"
    and "DB_Create (CreateNoteHandler_newNote now payload) = (result, new_id)"
    and "Error result = None"
  shows "\<exists>note.
           CreateNoteHandler now DB_Create (Parsed (Some payload)) =
             Inr \<lparr>status = StatusCreated,
                  body = JSON [(''status'', JString ''success''),
                               (''data'', JMap [(''note'', JNote note)])]\<rparr> \<and>
           ID note = new_id \<and>
           Title note = cTitle payload \<and>
           Content note = cContent payload \<and>
           Category note = cCategory payload \<and>
           Published note = cPublished payload \<and>
           CreatedAt note = now \<and>
           CreatedAt note = UpdatedAt note"
proof -
  have v: "ValidateStruct CreateNoteSchema_rules payload = []"
    using assms(1,2) by (simp add: ValidateStruct_Create_Nil)
  let ?note = "(CreateNoteHandler_newNote now payload)\<lparr>ID := new_id\<rparr>"
  have "CreateNoteHandler now DB_Create (Parsed (Some payload)) =
          Inr \<lparr>status = StatusCreated,
               body = JSON [(''status'', JString ''success''),
                            (''data'', JMap [(''note'', JNote ?note)])]\<rparr>"
    by (simp add: CreateNoteHandler_def v assms(3,4) Let_def)
  moreover have "ID ?note = new_id \<and> Title ?note = cTitle payload \<and>
      Content ?note = cContent payload \<and> Category ?note = cCategory payload \<and>
      Published ?note = cPublished payload \<and> CreatedAt ?note = now \<and>
      CreatedAt ?note = UpdatedAt ?note"
    by (simp add: CreateNoteHandler_newNote_def)
  ultimately show ?thesis by blast
qed

text \<open>The theorem at the payload of note A, which the store accepts with the id \<open>a1\<close>.\<close>

theorem CreateNoteHandler_created_witness:
  "cTitle \<lparr>cTitle = ''A'', cContent = ''x'', cCategory = ''home'', cPublished = True\<rparr> \<noteq> '''' \<and>
   cContent \<lparr>cTitle = ''A'', cContent = ''x'', cCategory = ''home'', cPublished = True\<rparr> \<noteq> '''' \<and>
   Error \<lparr>Error = None, RowsAffected = 1\<rparr> = None \<and>
   (\<exists>note.
      CreateNoteHandler 100 (Create_answers \<lparr>Error = None, RowsAffected = 1\<rparr> ''a1'')
         (Parsed (Some \<lparr>cTitle = ''A'', cContent = ''x'', cCategory = ''home'', cPublished = True\<rparr>)) =
        Inr \<lparr>status = StatusCreated,
             body = JSON [(''status'', JString ''success''),
                          (''data'', JMap [(''note'', JNote note)])]\<rparr> \<and>
      note = note_A)"
proof -
  let ?p = "\<lparr>cTitle = ''A'', cContent = ''x'', cCategory = ''home'', cPublished = True\<rparr>"
  let ?db = "Create_answers \<lparr>Error = None, RowsAffected = 1\<rparr> ''a1''"
  have h1: "cTitle ?p \<noteq> ''''" and h2: "cContent ?p \<noteq> ''''" by simp_all
  have h3: "?db (CreateNoteHandler_newNote 100 ?p) = (\<lparr>Error = None, RowsAffected = 1\<rparr>, ''a1'')"
    by (simp add: Create_answers_def)
  have h4: "Error \<lparr>Error = None, RowsAffected = 1\<rparr> = None" by simp
  from CreateNoteHandler_created [of ?p ?db 100, OF h1 h2 h3 h4]
  obtain n where r: "CreateNoteHandler 100 ?db (Parsed (Some ?p)) =
        Inr \<lparr>status = StatusCreated,
             body = JSON [(''status'', JString ''success''),
                          (''data'', JMap [(''note'', JNote n)])]\<rparr>"
    and f: "ID n = ''a1''" "Title n = cTitle ?p" "Content n = cContent ?p"
      "Category n = cCategory ?p" "Published n = cPublished ?p" "CreatedAt n = 100"
      "CreatedAt n = UpdatedAt n"
    by blast
  have "n = note_A"
    using f by (cases n) (simp add: note_A_def)
  with r h1 h2 h4 show ?thesis by blast
qed

section \<open>The envelope of error responses\<close>

text \<open>
  Claim C3, as stated: every error response of every handler is an envelope with a
  \<open>status\<close> of "fail" or "error" and a \<open>message\<close>. It fails for a create payload that
  does not pass validation: the handler answers 400 with the slice of violations
  (\<open>c.Status(400).JSON(errors)\<close>), which is a JSON array, not an envelope.
\<close>

theorem CreateNoteHandler_validation_body:
  "CreateNoteHandler 7 (Create_answers \<lparr>Error = None, RowsAffected = 1\<rparr> ''a1'')
      (Parsed (Some \<lparr>cTitle = '''', cContent = ''x'', cCategory = '''', cPublished = False\<rparr>)) =
     Inr \<lparr>status = StatusBadRequest,
          body = JSONErrors [\<lparr>eField = ''CreateNoteSchema.Title'', eTag = ''required'', eValue = ''''\<rparr>]\<rparr> \<and>
   \<not> error_envelope
        (JSONErrors [\<lparr>eField = ''CreateNoteSchema.Title'', eTag = ''required'', eValue = ''''\<rparr>])"
  by (simp add: CreateNoteHandler_def ValidateStruct_def CreateNoteSchema_rules_def fails_def
      error_envelope_def Let_def)

text \<open>
  The handlers one by one. The lemma of the delete handler is about a delete that the
  store answers without an error.
\<close>

lemma CreateNoteHandler_envelope:
  assumes "CreateNoteHandler now DB_Create parsed = Inr r" and "400 \<le> status r"
  shows "error_envelope (body r) \<or>
         (\<exists>payload. parsed = Parsed (Some payload) \<and>
            ValidateStruct CreateNoteSchema_rules payload \<noteq> [] \<and>
            r = \<lparr>status = StatusBadRequest,
                 body = JSONErrors (ValidateStruct CreateNoteSchema_rules payload)\<rparr>)"
  using assms
  by (auto simp: CreateNoteHandler_def error_envelope_def Let_def
      split: parsed.splits option.splits prod.splits if_splits)

lemma UpdateNote_envelope:
  assumes "fst (UpdateNote now ff uf noteId parsed rows) = Inr r" and "400 \<le> status r"
  shows "error_envelope (body r)"
  using assms
  by (auto simp: UpdateNote_def error_envelope_def Let_def
      split: parsed.splits option.splits sum.splits prod.splits if_splits)

lemma FindNoteById_envelope:
  "400 \<le> status (FindNoteById fault noteId rows) \<Longrightarrow>
   error_envelope (body (FindNoteById fault noteId rows))"
  by (auto simp: FindNoteById_def error_envelope_def split: sum.splits if_splits)

lemma DeleteNote_envelope:
  assumes "Error (DB_Delete noteId) = None"
    and "400 \<le> status (DeleteNote Marshal DB_Delete noteId)"
  shows "error_envelope (body (DeleteNote Marshal DB_Delete noteId))"
  using assms
  by (cases "RowsAffected (DB_Delete noteId) = 0") (simp_all add: DeleteNote_def error_envelope_def)

text \<open>
  Claim C3, amended: every response with a status of 400 or more of the create, update
  and get handlers, and of the delete handler for a delete that the store answers without
  an error, is an envelope with a \<open>status\<close> of "fail" or "error" and a \<open>message\<close>,
  except the 400 of the create handler for a payload that fails validation, whose body is
  the list of violations.
\<close>

theorem error_responses_envelope:
  "(\<forall>r. CreateNoteHandler now DB_Create cparsed = Inr r \<and> 400 \<le> status r \<longrightarrow>
        error_envelope (body r) \<or>
        (\<exists>payload. cparsed = Parsed (Some payload) \<and>
           ValidateStruct CreateNoteSchema_rules payload \<noteq> [] \<and>
           r = \<lparr>status = StatusBadRequest,
                body = JSONErrors (ValidateStruct CreateNoteSchema_rules payload)\<rparr>)) \<and>
   (\<forall>r. fst (UpdateNote now first_fault updates_fault noteId uparsed rows) = Inr r \<and>
        400 \<le> status r \<longrightarrow> error_envelope (body r)) \<and>
   (400 \<le> status (FindNoteById first_fault noteId rows) \<longrightarrow>
      error_envelope (body (FindNoteById first_fault noteId rows))) \<and>
   (Error (DB_Delete noteId) = None \<and>
    400 \<le> status (DeleteNote Marshal DB_Delete noteId) \<longrightarrow>
      error_envelope (body (DeleteNote Marshal DB_Delete noteId)))"
proof (intro conjI allI impI)
  fix r
  assume "CreateNoteHandler now DB_Create cparsed = Inr r \<and> 400 \<le> status r"
  then show "error_envelope (body r) \<or>
        (\<exists>payload. cparsed = Parsed (Some payload) \<and>
           ValidateStruct CreateNoteSchema_rules payload \<noteq> [] \<and>
           r = \<lparr>status = StatusBadRequest,
                body = JSONErrors (ValidateStruct CreateNoteSchema_rules payload)\<rparr>)"
    using CreateNoteHandler_envelope by blast
next
  fix r
  assume "fst (UpdateNote now first_fault updates_fault noteId uparsed rows) = Inr r \<and>
        400 \<le> status r"
  then show "error_envelope (body r)"
    using UpdateNote_envelope by blast
next
  assume "400 \<le> status (FindNoteById first_fault noteId rows)"
  then show "error_envelope (body (FindNoteById first_fault noteId rows))"
    by (rule FindNoteById_envelope)
next
  assume a: "Error (DB_Delete noteId) = None \<and>
    400 \<le> status (DeleteNote Marshal DB_Delete noteId)"
  show "error_envelope (body (DeleteNote Marshal DB_Delete noteId))"
    by (rule DeleteNote_envelope) (use a in blast)+
qed

text \<open>
  The theorem at four error responses: a delete that affects no row (404), a lookup of
  an id that is not stored (404), and an update and a create with a body that does not
  parse (400).
\<close>

theorem error_responses_envelope_witness:
  "Error (Delete_answers \<lparr>Error = None, RowsAffected = 0\<rparr> ''zz'') = None \<and>
   400 \<le> status (DeleteNote encodes_all (Delete_answers \<lparr>Error = None, RowsAffected = 0\<rparr>) ''zz'') \<and>
   error_envelope
     (body (DeleteNote encodes_all (Delete_answers \<lparr>Error = None, RowsAffected = 0\<rparr>) ''zz'')) \<and>
   400 \<le> status (FindNoteById None ''zz'' [note_A]) \<and>
   error_envelope (body (FindNoteById None ''zz'' [note_A])) \<and>
   fst (UpdateNote 300 None None ''a1'' (ParseError ''unexpected end of JSON input'') [note_A]) =
     Inr \<lparr>status = StatusBadRequest,
          body = JSON [(''status'', JString ''fail''),
                       (''message'', JString ''unexpected end of JSON input'')]\<rparr> \<and>
   CreateNoteHandler 7 (Create_answers \<lparr>Error = None, RowsAffected = 1\<rparr> ''a1'')
     (ParseError ''unexpected end of JSON input'') =
     Inr \<lparr>status = StatusBadRequest,
          body = JSON [(''status'', JString ''fail''),
                       (''message'', JString ''unexpected end of JSON input'')]\<rparr> \<and>
   error_envelope
     (JSON [(''status'', JString ''fail''),
            (''message'', JString ''unexpected end of JSON input'')])"
proof -
  let ?del = "Delete_answers \<lparr>Error = None, RowsAffected = 0\<rparr>"
  let ?r = "\<lparr>status = StatusBadRequest,
            body = JSON [(''status'', JString ''fail''),
                         (''message'', JString ''unexpected end of JSON input'')]\<rparr>"
  have d: "Error (?del ''zz'') = None"
    "400 \<le> status (DeleteNote encodes_all ?del ''zz'')"
    by (simp_all add: DeleteNote_def Delete_answers_def)
  have g: "400 \<le> status (FindNoteById None ''zz'' [note_A])"
    by (simp add: FindNoteById_def DB_First_def note_A_def)
  have u: "fst (UpdateNote 300 None None ''a1'' (ParseError ''unexpected end of JSON input'') [note_A]) =
      Inr ?r"
    "400 \<le> status ?r"
    by (simp_all add: UpdateNote_def)
  note t = error_responses_envelope
    [where DB_Delete = ?del and noteId = "''zz''" and rows = "[note_A]" and first_fault = None
       and Marshal = encodes_all]
  from t d have 1: "error_envelope (body (DeleteNote encodes_all ?del ''zz''))"
    by blast
  from t g have 2: "error_envelope (body (FindNoteById None ''zz'' [note_A]))"
    by blast
  from error_responses_envelope
    [where noteId = "''a1''" and rows = "[note_A]" and first_fault = None
       and updates_fault = None and now = 300
       and uparsed = "ParseError ''unexpected end of JSON input''"]
    u
  have 3: "error_envelope (body ?r)"
    by blast
  have k: "CreateNoteHandler 7 (Create_answers \<lparr>Error = None, RowsAffected = 1\<rparr> ''a1'')
      (ParseError ''unexpected end of JSON input'') = Inr ?r"
    by (simp add: CreateNoteHandler_def)
  from error_responses_envelope
    [where now = 7 and DB_Create = "Create_answers \<lparr>Error = None, RowsAffected = 1\<rparr> ''a1''"
       and cparsed = "ParseError ''unexpected end of JSON input''"]
    k u(2)
  have 4: "error_envelope (body ?r)"
    by blast
  from d g u k 1 2 3 4 show ?thesis by simp
qed


section \<open>List: page, limit and offset\<close>

text \<open>
  Claim C7, as stated: the page is 1 and the limit is 10 when the query parameter is
  absent; a value that is not numeric is coerced to 0 and the request is not rejected;
  the offset given to the page query is \<open>(page - 1) * limit\<close> on the coerced integers.

  The second part fails for a value that starts with more digits than 64 bits hold:
  \<open>Atoi\<close> stops at the digit that overflows, before it reads the byte that is not a
  digit, and returns the largest integer with a range error, which the handler drops as
  it drops every error of \<open>Atoi\<close>. Here the page is twenty nines and a letter.
\<close>

theorem FindNotes_long_digit_run:
  "long_page_query ''page'' = Some ''99999999999999999999x'' \<and>
   \<not> numeric ''99999999999999999999x'' \<and>
   Atoi (Query long_page_query ''page'' ''1'') = 9223372036854775807"
  by (simp add: long_page_query_def numeric_def unsigned_def Query_def Atoi_def ParseInt_def
      ParseUint_def isDigit_def digit_def Let_def)

text \<open>
  Claim C7, amended: the page is 1 and the limit is 10 when the query parameter is
  absent; a value that is not numeric is coerced without rejection to 0, unless the run
  of digits it starts with (after an optional sign) denotes more than 64 bits hold, that
  is \<open>2 ^ 64\<close> or more, in which case it is coerced to the largest 64-bit integer, or
  to the smallest when the sign is a minus; the offset given to the page query is
  \<open>(page - 1) * limit\<close> on the coerced integers.

  \<open>page\<close> and \<open>limit\<close> are the strings the handler gives to \<open>Atoi\<close>: the value of the
  parameter when it is present and not empty, the default otherwise (a parameter given
  with an empty value is read as absent). The last two conjuncts say that the response is
  made from the store's answer to the page query with that limit and that offset, and
  that it is never a 400. The arithmetic is that of Go's \<open>int\<close>, on 64 bits.
\<close>

theorem FindNotes_paging:
  assumes "page = Query c ''page'' ''1''" and "limit = Query c ''limit'' ''10''"
  shows "(c ''page'' = None \<longrightarrow> Atoi page = 1) \<and>
         (c ''limit'' = None \<longrightarrow> Atoi limit = 10) \<and>
         (\<forall>v. c ''page'' = Some v \<and> v \<noteq> '''' \<longrightarrow> page = v) \<and>
         (\<forall>v. c ''limit'' = Some v \<and> v \<noteq> '''' \<longrightarrow> limit = v) \<and>
         (\<not> numeric page \<longrightarrow>
            Atoi page =
              (if 2 ^ 64 \<le> decimal (digit_run (unsigned page))
               then (if negative page then word_of_int (- (2 ^ 63)) else word_of_int (2 ^ 63 - 1))
               else 0)) \<and>
         (\<not> numeric limit \<longrightarrow>
            Atoi limit =
              (if 2 ^ 64 \<le> decimal (digit_run (unsigned limit))
               then (if negative limit then word_of_int (- (2 ^ 63)) else word_of_int (2 ^ 63 - 1))
               else 0)) \<and>
         FindNotes Marshal DB_Find c =
           FindNotes_respond Marshal (DB_Find (Atoi limit) ((Atoi page - 1) * Atoi limit)) \<and>
         status (FindNotes Marshal DB_Find c) \<noteq> StatusBadRequest"
proof -
  have 1: "c ''page'' = None \<longrightarrow> Atoi page = 1"
    by (simp add: assms Query_def Atoi_1)
  have 2: "c ''limit'' = None \<longrightarrow> Atoi limit = 10"
    by (simp add: assms Query_def Atoi_10)
  have 3: "\<forall>v. c ''page'' = Some v \<and> v \<noteq> '''' \<longrightarrow> page = v"
    by (simp add: assms Query_def)
  have 4: "\<forall>v. c ''limit'' = Some v \<and> v \<noteq> '''' \<longrightarrow> limit = v"
    by (simp add: assms Query_def)
  have 5: "\<not> numeric page \<longrightarrow>
            Atoi page =
              (if 2 ^ 64 \<le> decimal (digit_run (unsigned page))
               then (if negative page then word_of_int (- (2 ^ 63)) else word_of_int (2 ^ 63 - 1))
               else 0)"
    using Atoi_not_numeric [of page] by blast
  have 6: "\<not> numeric limit \<longrightarrow>
            Atoi limit =
              (if 2 ^ 64 \<le> decimal (digit_run (unsigned limit))
               then (if negative limit then word_of_int (- (2 ^ 63)) else word_of_int (2 ^ 63 - 1))
               else 0)"
    using Atoi_not_numeric [of limit] by blast
  have 7: "FindNotes Marshal DB_Find c =
           FindNotes_respond Marshal (DB_Find (Atoi limit) ((Atoi page - 1) * Atoi limit))"
    by (simp add: FindNotes_def assms Let_def)
  have 8: "status (FindNotes_respond Marshal results) \<noteq> StatusBadRequest" for results
    by (simp add: FindNotes_respond_def split: prod.splits option.splits)
  from 1 2 3 4 5 6 7 8 [of "DB_Find (Atoi limit) ((Atoi page - 1) * Atoi limit)"]
  show ?thesis by simp
qed

text \<open>
  The theorem at a request without parameters; at \<open>page=abc&limit=5\<close>, which gives page
  0 and offset \<open>(0 - 1) * 5\<close> and is answered 200; and at the page of twenty nines and a
  letter, which gives the largest integer.
\<close>

theorem FindNotes_paging_witness:
  "no_query ''page'' = None \<and> Atoi (Query no_query ''page'' ''1'') = 1 \<and>
   no_query ''limit'' = None \<and> Atoi (Query no_query ''limit'' ''10'') = 10 \<and>
   bad_page_query ''page'' = Some ''abc'' \<and> \<not> numeric ''abc'' \<and>
   Atoi (Query bad_page_query ''page'' ''1'') = 0 \<and>
   (Atoi (Query bad_page_query ''page'' ''1'') - 1) * Atoi (Query bad_page_query ''limit'' ''10'') = - 5 \<and>
   FindNotes encodes_all (Find_answers None [note_A]) bad_page_query =
     \<lparr>status = StatusOK,
      body = JSON [(''status'', JString ''success''),
                   (''results'', JInt 1),
                   (''notes'', JNotes [note_A])]\<rparr> \<and>
   \<not> numeric ''99999999999999999999x'' \<and>
   Atoi (Query long_page_query ''page'' ''1'') = 9223372036854775807"
proof -
  let ?db = "Find_answers None [note_A]"
  have a: "no_query ''page'' = None" "no_query ''limit'' = None"
    by (simp_all add: no_query_def)
  have b: "bad_page_query ''page'' = Some ''abc''" "bad_page_query ''limit'' = Some ''5''"
    by (simp_all add: bad_page_query_def)
  have l: "long_page_query ''page'' = Some ''99999999999999999999x''"
    by (simp add: long_page_query_def)
  have n: "\<not> numeric ''abc''" "\<not> numeric ''99999999999999999999x''"
    by (simp_all add: numeric_def unsigned_def isDigit_def)
  have d: "\<not> 2 ^ 64 \<le> decimal (digit_run (unsigned ''abc''))"
    "2 ^ 64 \<le> decimal (digit_run (unsigned ''99999999999999999999x''))"
    "\<not> negative ''99999999999999999999x''"
    by (simp_all add: decimal_def digit_run_def unsigned_def negative_def isDigit_def digit_def)
  note t1 = FindNotes_paging [OF refl refl, of no_query encodes_all ?db]
  note t2 = FindNotes_paging [OF refl refl, of bad_page_query encodes_all ?db]
  note t3 = FindNotes_paging [OF refl refl, of long_page_query encodes_all ?db]
  from t1 a have 1: "Atoi (Query no_query ''page'' ''1'') = 1"
    "Atoi (Query no_query ''limit'' ''10'') = 10"
    by blast+
  from t2 b have q: "Query bad_page_query ''page'' ''1'' = ''abc''"
    "Query bad_page_query ''limit'' ''10'' = ''5''"
    by simp_all
  from t2 n d have z: "Atoi (Query bad_page_query ''page'' ''1'') = 0"
    unfolding q by simp
  have f: "Atoi ''5'' = 5"
    by (simp add: Atoi_def Let_def)
  from z f have o: "(Atoi (Query bad_page_query ''page'' ''1'') - 1) *
      Atoi (Query bad_page_query ''limit'' ''10'') = - 5"
    unfolding q by simp
  from t2 have r: "FindNotes encodes_all ?db bad_page_query =
     \<lparr>status = StatusOK,
      body = JSON [(''status'', JString ''success''),
                   (''results'', JInt 1),
                   (''notes'', JNotes [note_A])]\<rparr>"
    by (simp add: Find_answers_def FindNotes_respond_def)
  from t3 l have ql: "Query long_page_query ''page'' ''1'' = ''99999999999999999999x''"
    by simp
  from t3 n d have m: "Atoi (Query long_page_query ''page'' ''1'') = 9223372036854775807"
    unfolding ql by simp
  from a b n 1 z o r m show ?thesis by simp
qed


section \<open>Update: what is stored afterwards\<close>

text \<open>
  In the theorems of this section the note exists: \<open>DB_First\<close> finds it, which is the
  existence check of the handler passing. The table after the request is the second
  component of \<open>UpdateNote\<close>, and the stored note is what \<open>DB_First\<close> finds there.
  \<open>updates_fault = None\<close> says that the store carries out the write. A write that the
  store refuses changes nothing in the table.
\<close>

subsection \<open>How the handler changes the table\<close>

lemma DB_First_Inr:
  assumes "DB_First fault noteId rows = Inr note"
  shows "fault = None" and "ID note = noteId" and "note \<in> set rows"
  using assms
  by (auto simp: DB_First_def find_Some_iff split: option.splits)

lemma DB_First_map:
  assumes "DB_First None noteId rows = Inr note" and "\<And>r. ID (f r) = ID r"
  shows "DB_First None noteId (map (\<lambda>r. if ID r = noteId then f r else r) rows) = Inr (f note)"
  using assms(1)
proof (induction rows)
  case Nil
  then show ?case by (simp add: DB_First_def)
next
  case (Cons a rows)
  show ?case
  proof (cases "ID a = noteId")
    case True
    with Cons.prems have "note = a" by (simp add: DB_First_def)
    with True show ?thesis by (simp add: DB_First_def assms(2))
  next
    case False
    with Cons.prems have "DB_First None noteId rows = Inr note"
      by (simp add: DB_First_def)
    from Cons.IH [OF this] False show ?thesis by (simp add: DB_First_def)
  qed
qed

lemma assign_updates:
  "assign (UpdateNote_updates now p) r =
     r\<lparr>Title := (if uTitle p \<noteq> '''' then uTitle p else Title r),
       Content := (if uContent p \<noteq> '''' then uContent p else Content r),
       Category := (if uCategory p \<noteq> '''' then uCategory p else Category r),
       Published := (case uPublished p of Some b \<Rightarrow> b | None \<Rightarrow> Published r),
       UpdatedAt := now\<rparr>"
  by (simp add: assign_def UpdateNote_updates_def Let_def split: option.splits)

lemma ID_assign: "ID (assign updates r) = ID r"
  by (simp add: assign_def)

lemma UpdateNote_found:
  assumes "DB_First first_fault noteId rows = Inr note"
  shows "UpdateNote now first_fault updates_fault noteId (Parsed (Some p)) rows =
           (Inr \<lparr>status = StatusOK,
                 body = JSON [(''status'', JString ''success''),
                              (''data'', JMap [(''note'', JNote (assign (UpdateNote_updates now p) note))])]\<rparr>,
            (case updates_fault of
               None \<Rightarrow> map (\<lambda>r. if ID r = noteId then assign (UpdateNote_updates now p) r else r) rows
             | Some e \<Rightarrow> rows))"
  using assms DB_First_Inr(2) [OF assms]
  by (simp add: UpdateNote_def DB_Updates_def Let_def split: option.splits)

lemma UpdateNote_rows:
  "snd (UpdateNote now first_fault updates_fault noteId parsed rows) = rows \<or>
   (\<exists>p. parsed = Parsed (Some p) \<and>
      snd (UpdateNote now first_fault updates_fault noteId parsed rows) =
        map (\<lambda>r. if ID r = noteId then assign (UpdateNote_updates now p) r else r) rows)"
proof (cases "\<exists>p note. parsed = Parsed (Some p) \<and> DB_First first_fault noteId rows = Inr note")
  case True
  then obtain p n where "parsed = Parsed (Some p)" "DB_First first_fault noteId rows = Inr n"
    by blast
  then show ?thesis
    by (simp add: UpdateNote_found split: option.splits)
next
  case False
  then have "snd (UpdateNote now first_fault updates_fault noteId parsed rows) = rows"
    by (auto simp: UpdateNote_def split: parsed.splits sum.splits option.splits)
  then show ?thesis by simp
qed

lemma list_all2_map_self:
  "list_all2 P xs (map f xs) = (\<forall>x\<in>set xs. P x (f x))"
  by (induction xs) auto

lemma First_note_A: "DB_First None ''a1'' [note_A, note_B] = Inr note_A"
  by (simp add: DB_First_def note_A_def)

subsection \<open>The published flag\<close>

text \<open>
  Claim C4, as stated: every update whose input has \<open>published\<close> present with the
  value false, applied to an existing note that is stored as published, leaves the
  stored note unpublished. It fails where the store refuses the write. Here the input
  also renames note A to the title of note B, which the unique index on the title
  refuses: the handler answers 200 and note A is stored as published afterwards, as
  before.
\<close>

theorem UpdateNote_published_write_refused:
  "DB_First None ''a1'' [note_A, note_B] = Inr note_A \<and>
   Published note_A \<and>
   UpdateNote 300 None (Some duplicate_key) ''a1''
      (Parsed (Some \<lparr>uTitle = ''B'', uContent = '''', uCategory = '''', uPublished = Some False\<rparr>))
      [note_A, note_B] =
     (Inr \<lparr>status = StatusOK,
           body = JSON [(''status'', JString ''success''),
                        (''data'', JMap [(''note'',
                           JNote (note_A\<lparr>Title := ''B'', Published := False, UpdatedAt := 300\<rparr>))])]\<rparr>,
      [note_A, note_B])"
  by (simp add: UpdateNote_found [OF First_note_A] First_note_A assign_updates)
    (simp add: note_A_def)

text \<open>
  Claim C4, amended: an update whose input has \<open>published\<close> present with the value
  false, applied to an existing note that is stored as published, leaves the stored note
  unpublished whenever the store carries out the write; an input without \<open>published\<close>
  leaves the stored flag as it was. The three states of the input (absent, true, false)
  are told apart.

  The first part is proved for either value \<open>b\<close> of a present flag and for any stored
  value. The second part holds for every row of the table, whatever the store does with
  the write.
\<close>

theorem UpdateNote_published:
  assumes "DB_First first_fault noteId rows = Inr note"
  shows "(uPublished p = Some b \<and> updates_fault = None \<longrightarrow>
            (\<exists>stored.
               DB_First None noteId
                 (snd (UpdateNote now first_fault updates_fault noteId (Parsed (Some p)) rows)) =
                 Inr stored \<and>
               Published stored = b)) \<and>
         (uPublished p = None \<longrightarrow>
            map Published (snd (UpdateNote now first_fault updates_fault noteId (Parsed (Some p)) rows)) =
              map Published rows)"
proof (intro conjI impI)
  assume a: "uPublished p = Some b \<and> updates_fault = None"
  have f: "DB_First None noteId rows = Inr note"
    using assms DB_First_Inr(1) [OF assms] by simp
  have "DB_First None noteId
          (map (\<lambda>r. if ID r = noteId then assign (UpdateNote_updates now p) r else r) rows) =
        Inr (assign (UpdateNote_updates now p) note)"
    by (rule DB_First_map [OF f]) (rule ID_assign)
  moreover have "Published (assign (UpdateNote_updates now p) note) = b"
    using a by (simp add: assign_updates)
  ultimately show "\<exists>stored.
      DB_First None noteId
        (snd (UpdateNote now first_fault updates_fault noteId (Parsed (Some p)) rows)) =
        Inr stored \<and>
      Published stored = b"
    using a by (simp add: UpdateNote_found [OF assms])
next
  assume "uPublished p = None"
  then show "map Published (snd (UpdateNote now first_fault updates_fault noteId (Parsed (Some p)) rows)) =
      map Published rows"
    by (cases updates_fault) (simp_all add: UpdateNote_found [OF assms] assign_updates comp_def)
qed

text \<open>
  The theorem at note A, which is stored as published: \<open>published: false\<close> unpublishes
  it, and an input with a title only leaves the flags of both notes as they were.
\<close>

theorem UpdateNote_published_witness:
  "DB_First None ''a1'' [note_A, note_B] = Inr note_A \<and>
   Published note_A \<and>
   (\<exists>stored.
      DB_First None ''a1''
        (snd (UpdateNote 300 None None ''a1''
           (Parsed (Some \<lparr>uTitle = '''', uContent = '''', uCategory = '''', uPublished = Some False\<rparr>))
           [note_A, note_B])) = Inr stored \<and>
      Published stored = False) \<and>
   map Published
     (snd (UpdateNote 300 None None ''a1''
        (Parsed (Some \<lparr>uTitle = ''T'', uContent = '''', uCategory = '''', uPublished = None\<rparr>))
        [note_A, note_B])) = [True, False]"
proof -
  let ?off = "\<lparr>uTitle = '''', uContent = '''', uCategory = '''', uPublished = Some False\<rparr>"
  let ?absent = "\<lparr>uTitle = ''T'', uContent = '''', uCategory = '''', uPublished = None\<rparr>"
  have p: "Published note_A" "map Published [note_A, note_B] = [True, False]"
    by (simp_all add: note_A_def note_B_def)
  have o: "uPublished ?off = Some False \<and> (None :: db_error option) = None"
    and a: "uPublished ?absent = None"
    by simp_all
  from UpdateNote_published [OF First_note_A, of ?off False None 300] o
  have 1: "\<exists>stored.
      DB_First None ''a1'' (snd (UpdateNote 300 None None ''a1'' (Parsed (Some ?off)) [note_A, note_B])) =
        Inr stored \<and> Published stored = False"
    by blast
  from UpdateNote_published [OF First_note_A, of ?absent False None 300] a
  have 2: "map Published
      (snd (UpdateNote 300 None None ''a1'' (Parsed (Some ?absent)) [note_A, note_B])) =
      map Published [note_A, note_B]"
    by blast
  from First_note_A p 1 2 show ?thesis by simp
qed

subsection \<open>An update of the category alone\<close>

text \<open>
  Claim C6, as stated: for every existing note and every input that sets only the
  category, the stored note afterwards has the new category and a refreshed
  \<open>updatedAt\<close>. It fails where the store refuses the write. Here the connection is
  refused at the write: the handler answers 200 and note A is stored with the category
  "home" and the \<open>updatedAt\<close> of 100 afterwards, as before.
\<close>

theorem UpdateNote_only_category_write_refused:
  "DB_First None ''a1'' [note_A, note_B] = Inr note_A \<and>
   UpdateNote 300 None (Some connection_refused) ''a1''
      (Parsed (Some \<lparr>uTitle = '''', uContent = '''', uCategory = ''garden'', uPublished = None\<rparr>))
      [note_A, note_B] =
     (Inr \<lparr>status = StatusOK,
           body = JSON [(''status'', JString ''success''),
                        (''data'', JMap [(''note'',
                           JNote (note_A\<lparr>Category := ''garden'', UpdatedAt := 300\<rparr>))])]\<rparr>,
      [note_A, note_B]) \<and>
   Category note_A = ''home'' \<and>
   UpdatedAt note_A = 100"
  by (simp add: UpdateNote_found [OF First_note_A] First_note_A assign_updates)
    (simp add: note_A_def)

text \<open>
  Claim C6, amended: for an existing note and an input that sets only the category
  (title and content empty, \<open>published\<close> absent), the title, content, published flag,
  id and \<open>createdAt\<close> of the stored note are unchanged; whenever the store carries out
  the write, the stored note afterwards has the new category and \<open>updatedAt\<close> refreshed
  to the time of the request.

  The unchanged fields are unchanged in every row, whatever the store does with the
  write. Where the store carries out the write, the table afterwards is the table before
  with the category and \<open>updatedAt\<close> of this note set, and nothing else.
\<close>

theorem UpdateNote_only_category:
  assumes "DB_First first_fault noteId rows = Inr note"
    and "uTitle p = ''''" and "uContent p = ''''" and "uPublished p = None"
    and "uCategory p \<noteq> ''''"
  shows "list_all2
           (\<lambda>old new. Title new = Title old \<and> Content new = Content old \<and>
                      Published new = Published old \<and> ID new = ID old \<and>
                      CreatedAt new = CreatedAt old)
           rows (snd (UpdateNote now first_fault updates_fault noteId (Parsed (Some p)) rows)) \<and>
         (updates_fault = None \<longrightarrow>
            snd (UpdateNote now first_fault updates_fault noteId (Parsed (Some p)) rows) =
              map (\<lambda>r. if ID r = noteId then r\<lparr>Category := uCategory p, UpdatedAt := now\<rparr> else r)
                rows \<and>
            (\<exists>stored.
               DB_First None noteId
                 (snd (UpdateNote now first_fault updates_fault noteId (Parsed (Some p)) rows)) =
                 Inr stored \<and>
               Category stored = uCategory p \<and>
               UpdatedAt stored = now \<and>
               Title stored = Title note \<and>
               Content stored = Content note \<and>
               Published stored = Published note \<and>
               ID stored = ID note \<and>
               CreatedAt stored = CreatedAt note))"
proof -
  let ?f = "\<lambda>r. r\<lparr>Category := uCategory p, UpdatedAt := now\<rparr>"
  let ?rows' = "snd (UpdateNote now first_fault updates_fault noteId (Parsed (Some p)) rows)"
  have a: "assign (UpdateNote_updates now p) = ?f"
    using assms(2-5) by (auto simp: assign_updates fun_eq_iff)
  have f: "DB_First None noteId rows = Inr note"
    using assms(1) DB_First_Inr(1) [OF assms(1)] by simp
  have frame: "list_all2
           (\<lambda>old new. Title new = Title old \<and> Content new = Content old \<and>
                      Published new = Published old \<and> ID new = ID old \<and>
                      CreatedAt new = CreatedAt old)
           rows ?rows'"
  proof (cases updates_fault)
    case None
    then show ?thesis
      by (simp add: UpdateNote_found [OF assms(1)] a list_all2_map_self)
  next
    case (Some e)
    then show ?thesis
      by (simp add: UpdateNote_found [OF assms(1)] list_all2_same)
  qed
  have written: "updates_fault = None \<longrightarrow>
      ?rows' = map (\<lambda>r. if ID r = noteId then ?f r else r) rows \<and>
      (\<exists>stored. DB_First None noteId ?rows' = Inr stored \<and>
         Category stored = uCategory p \<and> UpdatedAt stored = now \<and>
         Title stored = Title note \<and> Content stored = Content note \<and>
         Published stored = Published note \<and> ID stored = ID note \<and>
         CreatedAt stored = CreatedAt note)"
  proof
    assume n: "updates_fault = None"
    have rows': "?rows' = map (\<lambda>r. if ID r = noteId then ?f r else r) rows"
      using n by (simp add: UpdateNote_found [OF assms(1)] a)
    have "DB_First None noteId (map (\<lambda>r. if ID r = noteId then ?f r else r) rows) = Inr (?f note)"
      by (rule DB_First_map [OF f]) simp
    then show "?rows' = map (\<lambda>r. if ID r = noteId then ?f r else r) rows \<and>
      (\<exists>stored. DB_First None noteId ?rows' = Inr stored \<and>
         Category stored = uCategory p \<and> UpdatedAt stored = now \<and>
         Title stored = Title note \<and> Content stored = Content note \<and>
         Published stored = Published note \<and> ID stored = ID note \<and>
         CreatedAt stored = CreatedAt note)"
      unfolding rows' by simp
  qed
  from frame written show ?thesis by blast
qed

text \<open>The theorem at note A and the category "garden", at time 300.\<close>

theorem UpdateNote_only_category_witness:
  "DB_First None ''a1'' [note_A, note_B] = Inr note_A \<and>
   snd (UpdateNote 300 None None ''a1''
      (Parsed (Some \<lparr>uTitle = '''', uContent = '''', uCategory = ''garden'', uPublished = None\<rparr>))
      [note_A, note_B]) =
     [note_A\<lparr>Category := ''garden'', UpdatedAt := 300\<rparr>, note_B]"
proof -
  let ?p = "\<lparr>uTitle = '''', uContent = '''', uCategory = ''garden'', uPublished = None\<rparr>"
  have h: "uTitle ?p = ''''" "uContent ?p = ''''" "uPublished ?p = None" "uCategory ?p \<noteq> ''''"
    by simp_all
  have i: "ID note_A = ''a1''" "ID note_B \<noteq> ''a1''"
    by (simp_all add: note_A_def note_B_def)
  from UpdateNote_only_category [OF First_note_A h, of 300 None]
  have "snd (UpdateNote 300 None None ''a1'' (Parsed (Some ?p)) [note_A, note_B]) =
          map (\<lambda>r. if ID r = ''a1'' then r\<lparr>Category := uCategory ?p, UpdatedAt := 300\<rparr> else r)
            [note_A, note_B]"
    by blast
  with i First_note_A show ?thesis by simp
qed

subsection \<open>An update with an empty payload\<close>

text \<open>
  Claim C10, as stated: for every existing note and every input with every field absent
  or empty, the only stored field that changes is \<open>updatedAt\<close>, which is refreshed. It
  fails where the store refuses the write. Here the connection is refused at the write:
  the handler answers 200 and the \<open>updatedAt\<close> of note A is 100 afterwards, as before,
  and not the time of the request, 300.
\<close>

theorem UpdateNote_empty_payload_write_refused:
  "DB_First None ''a1'' [note_A, note_B] = Inr note_A \<and>
   UpdateNote 300 None (Some connection_refused) ''a1''
      (Parsed (Some \<lparr>uTitle = '''', uContent = '''', uCategory = '''', uPublished = None\<rparr>))
      [note_A, note_B] =
     (Inr \<lparr>status = StatusOK,
           body = JSON [(''status'', JString ''success''),
                        (''data'', JMap [(''note'', JNote (note_A\<lparr>UpdatedAt := 300\<rparr>))])]\<rparr>,
      [note_A, note_B]) \<and>
   UpdatedAt note_A = 100"
  by (simp add: UpdateNote_found [OF First_note_A] First_note_A assign_updates)
    (simp add: note_A_def)

text \<open>
  Claim C10, amended: for an existing note and an input with every field absent or
  empty, no stored field other than \<open>updatedAt\<close> changes; whenever the store carries out
  the write, the handler answers 200 and \<open>updatedAt\<close> of the note is refreshed to the
  time of the request.

  No field other than \<open>updatedAt\<close> changes in any row, whatever the store does with the
  write; where the store carries out the write, every other row is as before.
\<close>

theorem UpdateNote_empty_payload:
  assumes "DB_First first_fault noteId rows = Inr note"
    and "uTitle p = ''''" and "uContent p = ''''" and "uCategory p = ''''"
    and "uPublished p = None"
  shows "list_all2 (\<lambda>old new. new = old\<lparr>UpdatedAt := UpdatedAt new\<rparr>) rows
           (snd (UpdateNote now first_fault updates_fault noteId (Parsed (Some p)) rows)) \<and>
         (updates_fault = None \<longrightarrow>
            (\<exists>r. fst (UpdateNote now first_fault updates_fault noteId (Parsed (Some p)) rows) = Inr r \<and>
                 status r = StatusOK) \<and>
            snd (UpdateNote now first_fault updates_fault noteId (Parsed (Some p)) rows) =
              map (\<lambda>r. if ID r = noteId then r\<lparr>UpdatedAt := now\<rparr> else r) rows)"
proof -
  let ?f = "\<lambda>r. r\<lparr>UpdatedAt := now\<rparr>"
  have a: "assign (UpdateNote_updates now p) = ?f"
    using assms(2-5) by (auto simp: assign_updates fun_eq_iff)
  have 1: "updates_fault = None \<longrightarrow>
            (\<exists>r. fst (UpdateNote now first_fault updates_fault noteId (Parsed (Some p)) rows) = Inr r \<and>
                 status r = StatusOK)"
    by (simp add: UpdateNote_found [OF assms(1)])
  have 2: "list_all2 (\<lambda>old new. new = old\<lparr>UpdatedAt := UpdatedAt new\<rparr>) rows
           (snd (UpdateNote now first_fault updates_fault noteId (Parsed (Some p)) rows))"
  proof (cases updates_fault)
    case None
    then show ?thesis
      by (simp add: UpdateNote_found [OF assms(1)] a list_all2_map_self)
  next
    case (Some e)
    then show ?thesis
      by (simp add: UpdateNote_found [OF assms(1)] list_all2_same)
  qed
  have 3: "updates_fault = None \<longrightarrow>
            snd (UpdateNote now first_fault updates_fault noteId (Parsed (Some p)) rows) =
              map (\<lambda>r. if ID r = noteId then r\<lparr>UpdatedAt := now\<rparr> else r) rows"
    by (simp add: UpdateNote_found [OF assms(1)] a)
  from 1 2 3 show ?thesis by blast
qed

text \<open>The theorem at note A, at time 300.\<close>

theorem UpdateNote_empty_payload_witness:
  "DB_First None ''a1'' [note_A, note_B] = Inr note_A \<and>
   (\<exists>r. fst (UpdateNote 300 None None ''a1''
            (Parsed (Some \<lparr>uTitle = '''', uContent = '''', uCategory = '''', uPublished = None\<rparr>))
            [note_A, note_B]) = Inr r \<and>
        status r = StatusOK) \<and>
   snd (UpdateNote 300 None None ''a1''
      (Parsed (Some \<lparr>uTitle = '''', uContent = '''', uCategory = '''', uPublished = None\<rparr>))
      [note_A, note_B]) =
     [note_A\<lparr>UpdatedAt := 300\<rparr>, note_B]"
proof -
  let ?p = "\<lparr>uTitle = '''', uContent = '''', uCategory = '''', uPublished = None\<rparr>"
  have h: "uTitle ?p = ''''" "uContent ?p = ''''" "uCategory ?p = ''''" "uPublished ?p = None"
    by simp_all
  have i: "ID note_A = ''a1''" "ID note_B \<noteq> ''a1''"
    by (simp_all add: note_A_def note_B_def)
  note t = UpdateNote_empty_payload [OF First_note_A h, of 300 None]
  from t have 1: "\<exists>r. fst (UpdateNote 300 None None ''a1'' (Parsed (Some ?p)) [note_A, note_B]) = Inr r \<and>
        status r = StatusOK"
    by blast
  from t have "snd (UpdateNote 300 None None ''a1'' (Parsed (Some ?p)) [note_A, note_B]) =
          map (\<lambda>r. if ID r = ''a1'' then r\<lparr>UpdatedAt := 300\<rparr> else r) [note_A, note_B]"
    by blast
  with i have 2: "snd (UpdateNote 300 None None ''a1'' (Parsed (Some ?p)) [note_A, note_B]) =
     [note_A\<lparr>UpdatedAt := 300\<rparr>, note_B]"
    by simp
  from First_note_A 1 2 show ?thesis by blast
qed

subsection \<open>Empty strings in the payload\<close>

text \<open>
  Claim C9. A title, content or category that is the empty string after decoding is
  treated as absent: it is not put in the map of updates, and that field is left
  unchanged in every stored note. Consequently no update request, whatever its payload,
  id and the state of the store, sets the title, content or category of a stored note
  to the empty string: a field that is empty afterwards was empty before.
\<close>

theorem UpdateNote_empty_strings:
  "(uTitle p = '''' \<longrightarrow>
      UpdateNote_updates now p ''title'' = None \<and>
      map Title (snd (UpdateNote now first_fault updates_fault noteId (Parsed (Some p)) rows)) =
        map Title rows) \<and>
   (uContent p = '''' \<longrightarrow>
      UpdateNote_updates now p ''content'' = None \<and>
      map Content (snd (UpdateNote now first_fault updates_fault noteId (Parsed (Some p)) rows)) =
        map Content rows) \<and>
   (uCategory p = '''' \<longrightarrow>
      UpdateNote_updates now p ''category'' = None \<and>
      map Category (snd (UpdateNote now first_fault updates_fault noteId (Parsed (Some p)) rows)) =
        map Category rows) \<and>
   list_all2
     (\<lambda>old new. (Title new = '''' \<longrightarrow> Title old = '''') \<and>
                (Content new = '''' \<longrightarrow> Content old = '''') \<and>
                (Category new = '''' \<longrightarrow> Category old = ''''))
     rows (snd (UpdateNote now first_fault updates_fault noteId parsed rows))"
proof -
  let ?rows' = "snd (UpdateNote now first_fault updates_fault noteId (Parsed (Some p)) rows)"
  have c: "?rows' = rows \<or>
           ?rows' = map (\<lambda>r. if ID r = noteId then assign (UpdateNote_updates now p) r else r) rows"
    using UpdateNote_rows [of now first_fault updates_fault noteId "Parsed (Some p)" rows]
    by auto
  have t: "uTitle p = '''' \<longrightarrow> UpdateNote_updates now p ''title'' = None \<and> map Title ?rows' = map Title rows"
  proof (intro impI conjI)
    assume e: "uTitle p = ''''"
    then show "UpdateNote_updates now p ''title'' = None"
      by (simp add: UpdateNote_updates_def Let_def split: option.splits)
    from c e show "map Title ?rows' = map Title rows"
      by (auto simp: assign_updates)
  qed
  have n: "uContent p = '''' \<longrightarrow> UpdateNote_updates now p ''content'' = None \<and> map Content ?rows' = map Content rows"
  proof (intro impI conjI)
    assume e: "uContent p = ''''"
    then show "UpdateNote_updates now p ''content'' = None"
      by (simp add: UpdateNote_updates_def Let_def split: option.splits)
    from c e show "map Content ?rows' = map Content rows"
      by (auto simp: assign_updates)
  qed
  have g: "uCategory p = '''' \<longrightarrow> UpdateNote_updates now p ''category'' = None \<and> map Category ?rows' = map Category rows"
  proof (intro impI conjI)
    assume e: "uCategory p = ''''"
    then show "UpdateNote_updates now p ''category'' = None"
      by (simp add: UpdateNote_updates_def Let_def split: option.splits)
    from c e show "map Category ?rows' = map Category rows"
      by (auto simp: assign_updates)
  qed
  have l: "list_all2
     (\<lambda>old new. (Title new = '''' \<longrightarrow> Title old = '''') \<and>
                (Content new = '''' \<longrightarrow> Content old = '''') \<and>
                (Category new = '''' \<longrightarrow> Category old = ''''))
     rows (snd (UpdateNote now first_fault updates_fault noteId parsed rows))"
    using UpdateNote_rows [of now first_fault updates_fault noteId parsed rows]
    by (auto simp: list_all2_map_self list_all2_same assign_updates)
  from t n g l show ?thesis by blast
qed

text \<open>
  The theorem at an input with a content only: the title is not in the map of updates,
  and the titles and categories of both notes are as before.
\<close>

theorem UpdateNote_empty_strings_witness:
  "uTitle \<lparr>uTitle = '''', uContent = ''z'', uCategory = '''', uPublished = None\<rparr> = '''' \<and>
   UpdateNote_updates 300 \<lparr>uTitle = '''', uContent = ''z'', uCategory = '''', uPublished = None\<rparr>
     ''title'' = None \<and>
   map Title
     (snd (UpdateNote 300 None None ''a1''
        (Parsed (Some \<lparr>uTitle = '''', uContent = ''z'', uCategory = '''', uPublished = None\<rparr>))
        [note_A, note_B])) = [''A'', ''B''] \<and>
   map Category
     (snd (UpdateNote 300 None None ''a1''
        (Parsed (Some \<lparr>uTitle = '''', uContent = ''z'', uCategory = '''', uPublished = None\<rparr>))
        [note_A, note_B])) = [''home'', ''work'']"
proof -
  let ?p = "\<lparr>uTitle = '''', uContent = ''z'', uCategory = '''', uPublished = None\<rparr>"
  have h: "uTitle ?p = ''''" "uCategory ?p = ''''"
    by simp_all
  have m: "map Title [note_A, note_B] = [''A'', ''B'']"
    "map Category [note_A, note_B] = [''home'', ''work'']"
    by (simp_all add: note_A_def note_B_def)
  note t = UpdateNote_empty_strings [of ?p 300 None None "''a1''" "[note_A, note_B]"]
  from t h have 1: "UpdateNote_updates 300 ?p ''title'' = None"
    by blast
  from t h have 2: "map Title
      (snd (UpdateNote 300 None None ''a1'' (Parsed (Some ?p)) [note_A, note_B])) =
      map Title [note_A, note_B]"
    by blast
  from t h have 3: "map Category
      (snd (UpdateNote 300 None None ''a1'' (Parsed (Some ?p)) [note_A, note_B])) =
      map Category [note_A, note_B]"
    by blast
  from h 1 2 3 m show ?thesis by simp
qed

end
